theory Spec2Isabelle
  imports Complex_Main "HOL-Library.Char_ord"
begin

section \<open>Strings and numbers of the host language\<close>

text \<open>
  Strings are lists of 8-bit characters and stand for ASCII text: \<open>trim\<close> removes the ASCII
  white space and line terminators, the case mappings act on the letters A-Z and a-z.
  A number is a finite value, an infinity or NaN. Finite values are exact rationals: the
  rounding of intermediate IEEE results and the sign of zero are not part of the model.
  Numbers read from stored rows are finite, and the integer counters of the attendance
  statistics are naturals.
\<close>

datatype jsnum = Fin rat | PosInf | NegInf | NaN

fun js_add :: "jsnum \<Rightarrow> jsnum \<Rightarrow> jsnum" where
  "js_add NaN _ = NaN"
| "js_add _ NaN = NaN"
| "js_add PosInf NegInf = NaN"
| "js_add NegInf PosInf = NaN"
| "js_add PosInf _ = PosInf"
| "js_add _ PosInf = PosInf"
| "js_add NegInf _ = NegInf"
| "js_add _ NegInf = NegInf"
| "js_add (Fin a) (Fin b) = Fin (a + b)"

definition signedInf :: "bool \<Rightarrow> jsnum" where
  "signedInf negative = (if negative then NegInf else PosInf)"

fun js_mul :: "jsnum \<Rightarrow> jsnum \<Rightarrow> jsnum" where
  "js_mul NaN _ = NaN"
| "js_mul _ NaN = NaN"
| "js_mul (Fin a) (Fin b) = Fin (a * b)"
| "js_mul (Fin a) PosInf = (if a = 0 then NaN else signedInf (a < 0))"
| "js_mul (Fin a) NegInf = (if a = 0 then NaN else signedInf (0 < a))"
| "js_mul PosInf (Fin b) = (if b = 0 then NaN else signedInf (b < 0))"
| "js_mul NegInf (Fin b) = (if b = 0 then NaN else signedInf (0 < b))"
| "js_mul PosInf PosInf = PosInf"
| "js_mul NegInf NegInf = PosInf"
| "js_mul PosInf NegInf = NegInf"
| "js_mul NegInf PosInf = NegInf"

fun js_div :: "jsnum \<Rightarrow> jsnum \<Rightarrow> jsnum" where
  "js_div NaN _ = NaN"
| "js_div _ NaN = NaN"
| "js_div (Fin a) (Fin b) =
     (if b = 0 then (if a = 0 then NaN else signedInf (a < 0)) else Fin (a / b))"
| "js_div (Fin a) PosInf = Fin 0"
| "js_div (Fin a) NegInf = Fin 0"
| "js_div PosInf (Fin b) = signedInf (b < 0)"
| "js_div NegInf (Fin b) = signedInf (0 \<le> b)"
| "js_div PosInf PosInf = NaN"
| "js_div PosInf NegInf = NaN"
| "js_div NegInf PosInf = NaN"
| "js_div NegInf NegInf = NaN"

definition ofNat :: "nat \<Rightarrow> jsnum" where
  "ofNat n = Fin (of_nat n)"

definition isWhiteSpace :: "char \<Rightarrow> bool" where
  "isWhiteSpace c = (c \<in> set [CHR 0x09, CHR 0x0A, CHR 0x0B, CHR 0x0C, CHR 0x0D, CHR '' ''])"

definition trim :: "string \<Rightarrow> string" where
  "trim s = rev (dropWhile isWhiteSpace (rev (dropWhile isWhiteSpace s)))"

definition upperLetters :: string where
  "upperLetters = ''ABCDEFGHIJKLMNOPQRSTUVWXYZ''"

definition lowerLetters :: string where
  "lowerLetters = ''abcdefghijklmnopqrstuvwxyz''"

definition lowerChar :: "char \<Rightarrow> char" where
  "lowerChar c = (case map_of (zip upperLetters lowerLetters) c of Some d \<Rightarrow> d | None \<Rightarrow> c)"

definition upperChar :: "char \<Rightarrow> char" where
  "upperChar c = (case map_of (zip lowerLetters upperLetters) c of Some d \<Rightarrow> d | None \<Rightarrow> c)"

definition toLowerCase :: "string \<Rightarrow> string" where
  "toLowerCase s = map lowerChar s"

definition toUpperCase :: "string \<Rightarrow> string" where
  "toUpperCase s = map upperChar s"

text \<open>\<open>Math.round\<close>: the closest integer, a tie going to the larger one.\<close>

fun Math_round :: "jsnum \<Rightarrow> jsnum" where
  "Math_round (Fin x) = Fin (of_int \<lfloor>x + 1 / 2\<rfloor>)"
| "Math_round v = v"

section \<open>Attendance status normalisation (src/lib/attendanceUtils.ts)\<close>

datatype NormalizedStatus = Present | Late | Absent

text \<open>\<open>RawStatus = NormalizedStatus | string | null | undefined\<close>.\<close>

datatype RawStatus = RNull | RUndefined | RString string

text \<open>The object literal \<open>STATUS_MAP\<close>, its own properties in source order.\<close>

definition STATUS_MAP :: "(string \<times> NormalizedStatus) list" where
  "STATUS_MAP =
    [(''present'', Present), (''attended'', Present), (''on-time'', Present),
     (''ontime'', Present), (''p'', Present), (''1'', Present), (''true'', Present),
     (''late'', Late), (''tardy'', Late), (''l'', Late),
     (''absent'', Absent), (''missed'', Absent), (''excused'', Absent),
     (''a'', Absent), (''0'', Absent), (''false'', Absent)]"

text \<open>
  \<open>STATUS_MAP\<close> is an ordinary object, so the property read \<open>STATUS_MAP[normalized]\<close> also
  finds the members it inherits from \<open>Object.prototype\<close>.
\<close>

definition objectPrototypeNames :: "string list" where
  "objectPrototypeNames =
    [''constructor'', ''__defineGetter__'', ''__defineSetter__'', ''hasOwnProperty'',
     ''__lookupGetter__'', ''__lookupSetter__'', ''isPrototypeOf'', ''propertyIsEnumerable'',
     ''toString'', ''valueOf'', ''__proto__'', ''toLocaleString'']"

text \<open>
  What a property read on \<open>STATUS_MAP\<close> followed by \<open>?? null\<close> yields: a canonical status,
  an inherited member (an object or function, neither \<open>null\<close> nor a status), or \<open>null\<close>.
\<close>

datatype StatusResult = Status NormalizedStatus | Inherited string | Null

definition normalizeAttendanceStatus :: "RawStatus \<Rightarrow> StatusResult" where
  "normalizeAttendanceStatus status =
    (case status of
       RNull \<Rightarrow> Null
     | RUndefined \<Rightarrow> Null
     | RString s \<Rightarrow>
         (let normalized = toLowerCase (trim s) in
          if normalized = [] then Null
          else (case map_of STATUS_MAP normalized of
                  Some v \<Rightarrow> Status v
                | None \<Rightarrow> if normalized \<in> set objectPrototypeNames
                          then Inherited normalized else Null)))"

text \<open>The synonym table in the words of the specification.\<close>

definition synonymsOf :: "NormalizedStatus \<Rightarrow> string list" where
  "synonymsOf v =
    (case v of
       Present \<Rightarrow> [''present'', ''attended'', ''on-time'', ''ontime'', ''p'', ''1'', ''true'']
     | Late \<Rightarrow> [''late'', ''tardy'', ''l'']
     | Absent \<Rightarrow> [''absent'', ''missed'', ''excused'', ''a'', ''0'', ''false''])"

section \<open>Attendance statistics (src/lib/attendanceUtils.ts)\<close>

record AttendanceRecord =
  studentId :: string
  courseId :: "string option"
  courseName :: string
  status :: RawStatus

record Counts =
  total :: nat
  present :: nat
  late :: nat
  absent :: nat

record Stats = Counts +
  percentage :: jsnum
  rate :: jsnum

text \<open>One iteration of the \<open>for (const record of records)\<close> loop.\<close>

definition countRecord :: "Counts \<Rightarrow> 'a AttendanceRecord_scheme \<Rightarrow> Counts" where
  "countRecord stats record =
    (case normalizeAttendanceStatus (status record) of
       Null \<Rightarrow> stats
     | Status Present \<Rightarrow> stats\<lparr>total := total stats + 1, present := present stats + 1\<rparr>
     | Status Late \<Rightarrow> stats\<lparr>total := total stats + 1, late := late stats + 1\<rparr>
     | Status Absent \<Rightarrow> stats\<lparr>total := total stats + 1, absent := absent stats + 1\<rparr>
     | Inherited _ \<Rightarrow> stats\<lparr>total := total stats + 1\<rparr>)"

definition zeroCounts :: Counts where
  "zeroCounts = \<lparr>total = 0, present = 0, late = 0, absent = 0\<rparr>"

definition withRate :: "Counts \<Rightarrow> jsnum \<Rightarrow> Stats" where
  "withRate stats p =
    \<lparr>total = total stats, present = present stats, late = late stats, absent = absent stats,
     percentage = p, rate = p\<rparr>"

definition calculateAttendanceStats :: "'a AttendanceRecord_scheme list \<Rightarrow> Stats" where
  "calculateAttendanceStats records =
    (if records = [] then withRate zeroCounts (Fin 0)
     else
       let stats = foldl countRecord zeroCounts records in
       if total stats = 0 then withRate stats (Fin 0)
       else
         let weightedScore =
               js_add (js_add (js_mul (ofNat (present stats)) (Fin 1))
                              (js_mul (ofNat (late stats)) (Fin (3 / 4))))
                      (js_mul (ofNat (absent stats)) (Fin 0));
             percentage =
               Math_round (js_mul (js_div weightedScore (ofNat (total stats))) (Fin 100))
         in withRate stats percentage)"

text \<open>Counting the records whose normalised status satisfies a predicate.\<close>

definition countStatus :: "(StatusResult \<Rightarrow> bool) \<Rightarrow> 'a AttendanceRecord_scheme list \<Rightarrow> nat" where
  "countStatus P records = length (filter (\<lambda>r. P (normalizeAttendanceStatus (status r))) records)"

definition statusRecord :: "RawStatus \<Rightarrow> AttendanceRecord" where
  "statusRecord st = \<lparr>studentId = ''s1'', courseId = None, courseName = ''Math'', status = st\<rparr>"

section \<open>Exceptions and collections of the host language\<close>

datatype exn = Error string | SyntaxError | TypeError

text \<open>
  A \<open>Map\<close>, and the own properties of an object, as an association list in insertion order.
  \<open>upsert k v0 f\<close> is the idiom "create the entry under \<open>k\<close> as \<open>v0\<close> unless it exists, then
  update the entry in place with \<open>f\<close>". \<open>setAdd\<close> is \<open>Set.prototype.add\<close>, and also the
  idiom "push unless included".
\<close>

fun upsert :: "'k \<Rightarrow> 'v \<Rightarrow> ('v \<Rightarrow> 'v) \<Rightarrow> ('k \<times> 'v) list \<Rightarrow> ('k \<times> 'v) list" where
  "upsert k v0 f [] = [(k, f v0)]"
| "upsert k v0 f ((k', v) # m) =
     (if k' = k then (k', f v) # m else (k', v) # upsert k v0 f m)"

definition setAdd :: "'a list \<Rightarrow> 'a \<Rightarrow> 'a list" where
  "setAdd xs x = (if x \<in> set xs then xs else xs @ [x])"

text \<open>\<open>String.prototype.split\<close> with a one-character separator.\<close>

fun splitOn :: "char \<Rightarrow> string \<Rightarrow> string list" where
  "splitOn sep [] = [[]]"
| "splitOn sep (c # cs) =
     (if c = sep then [] # splitOn sep cs
      else (case splitOn sep cs of
              [] \<Rightarrow> [[c]]
            | piece # pieces \<Rightarrow> (c # piece) # pieces))"

section \<open>Fee payment (src/lib/store.ts)\<close>

record Finance =
  id_finance :: string
  studentId_finance :: string
  totalFee :: rat
  scholarship :: rat
  paid :: rat
  due :: rat
  semester :: string

fun replaceFirst :: "('a \<Rightarrow> bool) \<Rightarrow> 'a \<Rightarrow> 'a list \<Rightarrow> 'a list" where
  "replaceFirst P y [] = []"
| "replaceFirst P y (x # xs) = (if P x then y # xs else x # replaceFirst P y xs)"

text \<open>
  \<open>payFee\<close> mutates the record that \<open>store.finances.find\<close> returns, so the store afterwards
  holds the updated record in the place of the first match. The result is the new store and
  the copy \<open>{ ...fin }\<close> that is returned. The amount is a finite number: the only caller
  (StudentFinance.tsx) rejects zero and NaN before the call. The remote update of the row is
  outside the model.
\<close>

definition payFee :: "Finance list \<Rightarrow> string \<Rightarrow> rat \<Rightarrow> exn + (Finance list \<times> Finance)" where
  "payFee finances sid amount =
    (case find (\<lambda>f. studentId_finance f = sid) finances of
       None \<Rightarrow> Inl (Error ''Finance record not found'')
     | Some fin \<Rightarrow>
         let applied = min amount (due fin);
             fin1 = fin\<lparr>paid := paid fin + applied\<rparr>;
             fin2 = fin1\<lparr>due := max 0 (totalFee fin1 - scholarship fin1 - paid fin1)\<rparr>
         in Inr (replaceFirst (\<lambda>f. studentId_finance f = sid) fin2 finances, fin2))"

definition financeOf :: "string \<Rightarrow> rat \<Rightarrow> rat \<Rightarrow> rat \<Rightarrow> rat \<Rightarrow> Finance" where
  "financeOf sid t s p d =
     \<lparr>id_finance = ''f-'' @ sid, studentId_finance = sid, totalFee = t, scholarship = s,
      paid = p, due = d, semester = ''Fall''\<rparr>"

section \<open>Grades (src/types/index.ts)\<close>

record Grade =
  studentId_grade :: string
  courseId_grade :: string
  courseName_grade :: string
  score :: rat
  maxScore :: rat

section \<open>Average of percentages (src/pages/StudentResults.tsx)\<close>

definition averageScore :: "Grade list \<Rightarrow> jsnum" where
  "averageScore grades =
    (if grades = [] then Fin 0
     else
       let total = foldl (\<lambda>sum grade.
                      js_add sum (js_mul (js_div (Fin (score grade)) (Fin (maxScore grade))) (Fin 100)))
                    (Fin 0) grades
       in js_div total (ofNat (length grades)))"

section \<open>Sum-of-points aggregation (AdminClasses)\<close>










definition gradeOf :: "string \<Rightarrow> string \<Rightarrow> rat \<Rightarrow> rat \<Rightarrow> Grade" where
  "gradeOf s c sc mx =
    \<lparr>studentId_grade = s, courseId_grade = c, courseName_grade = ''Algebra'',
     score = sc, maxScore = mx\<rparr>"

section \<open>Courses and students (src/types/index.ts)\<close>

record Student =
  id_student :: string
  name_student :: string

record Course =
  id_course :: string
  name_course :: string
  code :: string
  teacherId :: string
  studentIds :: "string list"

section \<open>Enumeration order of object properties\<close>

text \<open>
  \<open>Object.entries\<close> and \<open>Object.values\<close> list the own properties whose names are array
  indices (canonical decimal numerals below \<open>2^32 - 1\<close>) first, in ascending numeric order,
  and then the other properties in the order of their creation.
\<close>

definition digits :: string where
  "digits = ''0123456789''"

definition digitValue :: "char \<Rightarrow> nat" where
  "digitValue c = length (takeWhile (\<lambda>d. d \<noteq> c) digits)"

definition arrayIndex :: "string \<Rightarrow> nat option" where
  "arrayIndex s =
    (let n = foldl (\<lambda>n c. 10 * n + digitValue c) 0 s in
     if s \<noteq> [] \<and> (\<forall>c \<in> set s. c \<in> set digits) \<and> (s = ''0'' \<or> hd s \<noteq> CHR ''0'')
        \<and> n \<le> 4294967294
     then Some n else None)"

definition objectEntries :: "(string \<times> 'v) list \<Rightarrow> (string \<times> 'v) list" where
  "objectEntries obj =
    sort_key (\<lambda>e. case arrayIndex (fst e) of Some n \<Rightarrow> n | None \<Rightarrow> 0)
      (filter (\<lambda>e. arrayIndex (fst e) \<noteq> None) obj)
    @ filter (\<lambda>e. arrayIndex (fst e) = None) obj"

section \<open>Department buckets of the admin dashboard (src/pages/AdminDashboard.tsx)\<close>

record DeptEntry =
  students_dept :: "string list"
  teachers_dept :: "string list"
  courses_dept :: nat

record DeptSummary =
  name_summary :: string
  students_summary :: nat
  teachers_summary :: nat
  courses_summary :: nat

text \<open>\<open>course.code.slice(0, 2)\<close>\<close>

definition deptKeyDashboard :: "string \<Rightarrow> string" where
  "deptKeyDashboard courseCode = take 2 courseCode"

text \<open>
  The reducer of \<open>stats.departments\<close>. The accumulator is an object; its keys have at most two
  characters, so no key is the name of a member inherited from \<open>Object.prototype\<close>.
\<close>

definition addCourse :: "Course \<Rightarrow> DeptEntry \<Rightarrow> DeptEntry" where
  "addCourse course e =
    \<lparr>students_dept = foldl setAdd (students_dept e) (studentIds course),
     teachers_dept = setAdd (teachers_dept e) (teacherId course),
     courses_dept = courses_dept e + 1\<rparr>"

definition departments :: "Course list \<Rightarrow> (string \<times> DeptEntry) list" where
  "departments cs =
    foldl (\<lambda>acc course.
        upsert (deptKeyDashboard (code course))
          \<lparr>students_dept = [], teachers_dept = [], courses_dept = 0\<rparr>
          (addCourse course) acc)
      [] cs"

definition departmentSummary :: "Course list \<Rightarrow> DeptSummary list" where
  "departmentSummary cs =
    map (\<lambda>(name, data).
          \<lparr>name_summary = name, students_summary = length (students_dept data),
           teachers_summary = length (teachers_dept data), courses_summary = courses_dept data\<rparr>)
      (objectEntries (departments cs))"

section \<open>Department buckets of the admin reports (src/pages/AdminReports.tsx)\<close>

definition isLetter :: "char \<Rightarrow> bool" where
  "isLetter c = (c \<in> set upperLetters \<or> c \<in> set lowerLetters)"

definition isLineTerminator :: "char \<Rightarrow> bool" where
  "isLineTerminator c = (c = CHR 0x0A \<or> c = CHR 0x0D)"

text \<open>
  \<open>code.replace(/[^A-Za-z].*/, '')\<close>: the first character that is not a letter is removed
  together with everything after it up to the next line terminator (\<open>.\<close> does not match
  one).
\<close>

definition stripFromNonLetter :: "string \<Rightarrow> string" where
  "stripFromNonLetter s =
    (case dropWhile isLetter s of
       [] \<Rightarrow> s
     | c # rest \<Rightarrow> takeWhile isLetter s @ dropWhile (\<lambda>d. \<not> isLineTerminator d) rest)"

definition deptKeyReports :: "string \<Rightarrow> string" where
  "deptKeyReports courseCode =
    toUpperCase (let stripped = stripFromNonLetter courseCode in
                 if stripped = [] then ''GEN'' else stripped)"

record DeptData =
  studentIds_data :: "string list"
  attendanceRecords_data :: "AttendanceRecord list"

text \<open>
  The map \<open>deptMap\<close> that \<open>departmentPerformance\<close> builds in \<open>courses.forEach\<close>; the figures
  derived from it per department and their sorting by name come after it.
\<close>

definition addCourseData :: "AttendanceRecord list \<Rightarrow> Course \<Rightarrow> DeptData \<Rightarrow> DeptData" where
  "addCourseData attendance course entry =
    \<lparr>studentIds_data = foldl setAdd (studentIds_data entry) (studentIds course),
     attendanceRecords_data = attendanceRecords_data entry
        @ filter (\<lambda>record. courseName record = name_course course) attendance\<rparr>"

definition deptMap :: "Course list \<Rightarrow> AttendanceRecord list \<Rightarrow> (string \<times> DeptData) list" where
  "deptMap cs attendance =
    foldl (\<lambda>m course.
        upsert (deptKeyReports (code course))
          \<lparr>studentIds_data = [], attendanceRecords_data = []\<rparr>
          (addCourseData attendance course) m)
      [] cs"

definition courseOf :: "string \<Rightarrow> string \<Rightarrow> string \<Rightarrow> string \<Rightarrow> string list \<Rightarrow> Course" where
  "courseOf i n c t ids =
    \<lparr>id_course = i, name_course = n, code = c, teacherId = t, studentIds = ids\<rparr>"

section \<open>Roster identifier normalisation (src/lib/rosterUtils.ts)\<close>

text \<open>
  The \<open>studentIds\<close> column arrives as a decoded JSON value, or is absent. \<open>JSON.parse\<close> and
  the conversion of a number to a string belong to the platform; the model takes them as the
  parameters \<open>parse\<close> (which returns the parsed value or throws) and \<open>numberToString\<close>.
\<close>

datatype jsval =
    JUndefined | JNull | JBool bool | JNum rat | JStr string
  | JArr "jsval list" | JObj "(string \<times> jsval) list"

fun joinWith :: "string \<Rightarrow> string list \<Rightarrow> string" where
  "joinWith sep [] = []"
| "joinWith sep [x] = x"
| "joinWith sep (x # y # zs) = x @ sep @ joinWith sep (y # zs)"

text \<open>The string a template literal \<open>`${value}`\<close> makes of a value.\<close>

fun toString :: "(rat \<Rightarrow> string) \<Rightarrow> jsval \<Rightarrow> string" where
  "toString numberToString JUndefined = ''undefined''"
| "toString numberToString JNull = ''null''"
| "toString numberToString (JBool b) = (if b then ''true'' else ''false'')"
| "toString numberToString (JNum n) = numberToString n"
| "toString numberToString (JStr s) = s"
| "toString numberToString (JArr vs) =
     joinWith '','' (map (\<lambda>v. if v = JNull \<or> v = JUndefined then []
                               else toString numberToString v) vs)"
| "toString numberToString (JObj props) = ''[object Object]''"

text \<open>\<open>.map((value) => `${value}`.trim()).filter((value) => value.length > 0)\<close>\<close>

definition trimmedNonEmpty :: "(rat \<Rightarrow> string) \<Rightarrow> jsval list \<Rightarrow> string list" where
  "trimmedNonEmpty numberToString vs =
    filter (\<lambda>value. 0 < length value) (map (\<lambda>value. trim (toString numberToString value)) vs)"

text \<open>The characters of the class \<open>[\[\]\{\}"]\<close>.\<close>

definition bracketNoise :: string where
  "bracketNoise = [CHR ''['', CHR '']'', CHR ''{'', CHR ''}'', CHR 0x22]"

definition delimiterParse :: "string \<Rightarrow> string list" where
  "delimiterParse trimmed =
    filter (\<lambda>value. 0 < length value)
      (map (\<lambda>value. trim (filter (\<lambda>c. c \<notin> set bracketNoise) value)) (splitOn CHR '','' trimmed))"

text \<open>
  A block either returns a value or runs to its end; with \<open>exn + _\<close> around it, it may also
  throw.
\<close>

datatype 'a completion = Returned 'a | Completed

definition tryParse ::
    "(string \<Rightarrow> exn + jsval) \<Rightarrow> (rat \<Rightarrow> string) \<Rightarrow> string \<Rightarrow> exn + string list completion" where
  "tryParse parse numberToString trimmed =
    (case parse trimmed of
       Inl e \<Rightarrow> Inl e
     | Inr parsed \<Rightarrow>
         (case parsed of
            JArr vs \<Rightarrow> Inr (Returned (trimmedNonEmpty numberToString vs))
          | _ \<Rightarrow> Inr Completed))"

definition catchAll :: "exn + 'a completion \<Rightarrow> exn + 'a completion" where
  "catchAll block = (case block of Inl e \<Rightarrow> Inr Completed | Inr c \<Rightarrow> Inr c)"

definition normalizeStudentIds ::
    "(string \<Rightarrow> exn + jsval) \<Rightarrow> (rat \<Rightarrow> string) \<Rightarrow> jsval \<Rightarrow> exn + string list" where
  "normalizeStudentIds parse numberToString input =
    (case input of
       JArr vs \<Rightarrow> Inr (trimmedNonEmpty numberToString vs)
     | JStr s \<Rightarrow>
         (let trimmed = trim s in
          if trimmed = [] then Inr []
          else (case catchAll (tryParse parse numberToString trimmed) of
                  Inl e \<Rightarrow> Inl e
                | Inr (Returned ids) \<Rightarrow> Inr ids
                | Inr Completed \<Rightarrow> Inr (delimiterParse trimmed)))
     | _ \<Rightarrow> Inr [])"

text \<open>A parser that knows one text, for examples.\<close>

definition parseOnly :: "string \<Rightarrow> jsval \<Rightarrow> string \<Rightarrow> exn + jsval" where
  "parseOnly text v s = (if s = text then Inr v else Inl SyntaxError)"


section \<open>Roster reconciliation of the attendance page (src/pages/TeacherAttendance.tsx)\<close>

text \<open>
  An assignment \<open>obj[k] = v\<close> or \<open>map.set(k, v)\<close> keeps the place of an existing key.
  \<open>dedupe\<close> is \<open>Array.from(new Set(xs))\<close>, and \<open>mapOfStudents\<close> is
  \<open>new Map(students.map((student) => [student.id, student]))\<close>.
\<close>

definition assign :: "'k \<Rightarrow> 'v \<Rightarrow> ('k \<times> 'v) list \<Rightarrow> ('k \<times> 'v) list" where
  "assign k v obj = upsert k v (\<lambda>_. v) obj"

definition dedupe :: "'a list \<Rightarrow> 'a list" where
  "dedupe xs = foldl setAdd [] xs"






















section \<open>Roster reconciliation of the teacher's student list (TeacherStudents.loadData)\<close>

text \<open>
  The teacher branch of \<open>loadData\<close>, from the normalised courses and the students that the
  two first fetches returned; \<open>getGradesByCourseIds\<close> and \<open>getStudentsByIds\<close> are the answers
  of the store and may throw. The per-course grade averages that the same loop accumulates
  are described separately below and are not part of the result here.
\<close>






definition rosterStudentMapOf ::
    "(string \<times> Student) list \<Rightarrow> (string \<times> string list) list \<Rightarrow> (string \<times> Student list) list" where
  "rosterStudentMapOf studentLookup rosterEntries =
    foldl (\<lambda>m entry. assign (fst entry) (List.map_filter (map_of studentLookup) (snd entry)) m)
      [] (objectEntries rosterEntries)"









text \<open>
  The percentage of one grade and the average of a student's course in the same loop
  (\<open>gradeTotals\<close>, \<open>averages\<close>): both guard the division.
\<close>

definition percentOf :: "Grade \<Rightarrow> jsnum" where
  "percentOf grade =
    (if maxScore grade \<noteq> 0
     then js_mul (js_div (Fin (score grade)) (Fin (maxScore grade))) (Fin 100)
     else Fin (score grade))"

definition averageOf :: "Grade list \<Rightarrow> jsnum" where
  "averageOf grades =
    (let sum = foldl (\<lambda>sum grade. js_add sum (percentOf grade)) (Fin 0) grades;
         count = length grades
     in if 0 < count then js_div sum (ofNat count) else Fin 0)"


section \<open>Properties of the attendance statistics\<close>

lemmas string_defs = trim_def isWhiteSpace_def toLowerCase_def toUpperCase_def lowerChar_def
  upperChar_def upperLetters_def lowerLetters_def

lemmas normalize_defs = normalizeAttendanceStatus_def STATUS_MAP_def objectPrototypeNames_def
  string_defs

lemma foldl_countRecord:
  "foldl countRecord s records =
     \<lparr>total = total s + countStatus (\<lambda>v. v \<noteq> Null) records,
      present = present s + countStatus (\<lambda>v. v = Status Present) records,
      late = late s + countStatus (\<lambda>v. v = Status Late) records,
      absent = absent s + countStatus (\<lambda>v. v = Status Absent) records\<rparr>"
proof (induction records arbitrary: s)
  case Nil
  show ?case by (simp add: countStatus_def)
next
  case (Cons r rs)
  have step: "countRecord s r =
     \<lparr>total = total s + (if normalizeAttendanceStatus (status r) \<noteq> Null then 1 else 0),
      present = present s + (if normalizeAttendanceStatus (status r) = Status Present then 1 else 0),
      late = late s + (if normalizeAttendanceStatus (status r) = Status Late then 1 else 0),
      absent = absent s + (if normalizeAttendanceStatus (status r) = Status Absent then 1 else 0)\<rparr>"
    by (cases s) (simp add: countRecord_def split: StatusResult.splits NormalizedStatus.splits)
  have "foldl countRecord s (r # rs) = foldl countRecord (countRecord s r) rs"
    by simp
  also have "\<dots> = \<lparr>total = total (countRecord s r) + countStatus (\<lambda>v. v \<noteq> Null) rs,
      present = present (countRecord s r) + countStatus (\<lambda>v. v = Status Present) rs,
      late = late (countRecord s r) + countStatus (\<lambda>v. v = Status Late) rs,
      absent = absent (countRecord s r) + countStatus (\<lambda>v. v = Status Absent) rs\<rparr>"
    by (rule Cons.IH)
  finally show ?case
    by (simp add: step countStatus_def)
qed

lemma counts_of_records:
  "foldl countRecord zeroCounts records =
     \<lparr>total = countStatus (\<lambda>v. v \<noteq> Null) records,
      present = countStatus (\<lambda>v. v = Status Present) records,
      late = countStatus (\<lambda>v. v = Status Late) records,
      absent = countStatus (\<lambda>v. v = Status Absent) records\<rparr>"
  by (simp add: foldl_countRecord zeroCounts_def)



lemma calculateAttendanceStats_counts:
  "total (calculateAttendanceStats records) = countStatus (\<lambda>v. v \<noteq> Null) records"
  "present (calculateAttendanceStats records) = countStatus (\<lambda>v. v = Status Present) records"
  "late (calculateAttendanceStats records) = countStatus (\<lambda>v. v = Status Late) records"
  "absent (calculateAttendanceStats records) = countStatus (\<lambda>v. v = Status Absent) records"
  by (simp_all add: calculateAttendanceStats_def Let_def withRate_def counts_of_records)
     (simp_all add: zeroCounts_def countStatus_def)








section \<open>Properties of the status normaliser\<close>

lemma lowerChar_not_upper: "lowerChar c \<notin> set upperLetters"
  by (simp add: lowerChar_def upperLetters_def lowerLetters_def)

lemma toLowerCase_no_upper: "c \<in> set (toLowerCase s) \<Longrightarrow> c \<notin> set upperLetters"
  using lowerChar_not_upper by (auto simp: toLowerCase_def)

lemma objectPrototypeNames_lower:
  "\<forall>m \<in> set objectPrototypeNames.
     m = ''constructor'' \<or> m = ''__proto__'' \<or> (\<exists>c \<in> set m. c \<in> set upperLetters)"
  by code_simp

lemma inherited_names_reachable:
  assumes "n \<in> set objectPrototypeNames" "n = toLowerCase s"
  shows "n = ''constructor'' \<or> n = ''__proto__''"
  using assms objectPrototypeNames_lower toLowerCase_no_upper by blast


lemma normalizeAttendanceStatus_Inherited_iff:
  "normalizeAttendanceStatus raw = Inherited n \<longleftrightarrow>
     (\<exists>s. raw = RString s \<and> n = toLowerCase (trim s) \<and> (n = ''constructor'' \<or> n = ''__proto__''))"
proof
  assume "normalizeAttendanceStatus raw = Inherited n"
  then obtain s where s: "raw = RString s" "n = toLowerCase (trim s)" "n \<in> set objectPrototypeNames"
    by (auto simp: normalizeAttendanceStatus_def Let_def split: RawStatus.splits if_splits option.splits)
  with inherited_names_reachable [of n "trim s"] show
    "\<exists>s. raw = RString s \<and> n = toLowerCase (trim s) \<and> (n = ''constructor'' \<or> n = ''__proto__'')"
    by blast
next
  assume "\<exists>s. raw = RString s \<and> n = toLowerCase (trim s) \<and> (n = ''constructor'' \<or> n = ''__proto__'')"
  then obtain s where s: "raw = RString s" "n = toLowerCase (trim s)"
    and n: "n = ''constructor'' \<or> n = ''__proto__''" by blast
  have "map_of STATUS_MAP ''constructor'' = None" "map_of STATUS_MAP ''__proto__'' = None"
    by (simp_all add: STATUS_MAP_def)
  moreover have "''constructor'' \<in> set objectPrototypeNames" "''__proto__'' \<in> set objectPrototypeNames"
    by (simp_all add: objectPrototypeNames_def)
  ultimately have "map_of STATUS_MAP n = None \<and> n \<in> set objectPrototypeNames \<and> n \<noteq> []"
    using n by auto
  with s show "normalizeAttendanceStatus raw = Inherited n"
    by (simp add: normalizeAttendanceStatus_def Let_def)
qed


lemma STATUS_MAP_synonyms: "map_of STATUS_MAP n = Some v \<longleftrightarrow> n \<in> set (synonymsOf v)"
  by (cases v) (auto simp: STATUS_MAP_def synonymsOf_def split: if_splits)

lemma normalizeAttendanceStatus_table:
  assumes "toLowerCase (trim s) \<noteq> ''constructor''" "toLowerCase (trim s) \<noteq> ''__proto__''"
  shows "normalizeAttendanceStatus (RString s) =
     (case map_of STATUS_MAP (toLowerCase (trim s)) of Some v \<Rightarrow> Status v | None \<Rightarrow> Null)"
proof (cases "map_of STATUS_MAP (toLowerCase (trim s))")
  case (Some v)
  then have "toLowerCase (trim s) \<noteq> []"
    by (auto simp: STATUS_MAP_def)
  with Some show ?thesis
    by (simp add: normalizeAttendanceStatus_def Let_def)
next
  case None
  have "toLowerCase (trim s) \<notin> set objectPrototypeNames"
    using inherited_names_reachable [of "toLowerCase (trim s)" "trim s"] assms by blast
  with None show ?thesis
    by (simp add: normalizeAttendanceStatus_def Let_def)
qed

lemma normalizeAttendanceStatus_absent_input:
  "normalizeAttendanceStatus RNull = Null" "normalizeAttendanceStatus RUndefined = Null"
  "trim s = [] \<Longrightarrow> normalizeAttendanceStatus (RString s) = Null"
  by (simp_all add: normalizeAttendanceStatus_def toLowerCase_def)

lemma normalize_constructor:
  "normalizeAttendanceStatus (RString ''constructor'') = Inherited ''constructor''"
  by (simp add: normalize_defs)

text \<open>
  Claim C7. The normaliser trims and lower-cases the string and looks it up in the synonym
  table, returning \<open>null\<close> for \<open>null\<close>, \<open>undefined\<close> and blank strings. It does not return
  \<open>null\<close> for every other string: the lookup is a property read on an ordinary object, so
  the strings \<open>constructor\<close> and \<open>__proto__\<close> (in any letter case, with any padding) yield a
  member inherited from \<open>Object.prototype\<close>. Such a record is then counted in \<open>total\<close> and
  in none of the three categories.
\<close>

theorem normalizeAttendanceStatus_inherited_member:
  "normalizeAttendanceStatus (RString ''constructor'') = Inherited ''constructor''
   \<and> normalizeAttendanceStatus (RString ''constructor'') \<noteq> Null
   \<and> total (calculateAttendanceStats [statusRecord (RString ''constructor'')]) = 1
   \<and> absent (calculateAttendanceStats [statusRecord (RString ''constructor'')]) = 0"
  by (simp add: normalize_constructor calculateAttendanceStats_counts countStatus_def statusRecord_def)


section \<open>Properties of the fee payment\<close>

lemma find_replaceFirst:
  "find P xs = Some x \<Longrightarrow> P y \<Longrightarrow> find P (replaceFirst P y xs) = Some y"
  by (induction xs) (auto split: if_splits)

text \<open>
  Claim C9. Whenever \<open>payFee\<close> finds the student's finance record it completes, and the
  record it returns, which is also the record the store then holds for the student,
  satisfies \<open>due = max(0, totalFee - scholarship - paid)\<close>; the payment applied is the amount
  capped at the previous \<open>due\<close>.
\<close>

theorem payFee_invariant:
  assumes "find (\<lambda>f. studentId_finance f = sid) finances = Some fin"
  shows "\<exists>finances' fin'. payFee finances sid amount = Inr (finances', fin')
     \<and> due fin' = max 0 (totalFee fin' - scholarship fin' - paid fin')
     \<and> find (\<lambda>f. studentId_finance f = sid) finances' = Some fin'
     \<and> totalFee fin' = totalFee fin \<and> scholarship fin' = scholarship fin
     \<and> paid fin' = paid fin + min amount (due fin)"
proof -
  from assms have sid: "studentId_finance fin = sid"
    by (auto dest: find_Some_iff [THEN iffD1])
  let ?fin1 = "fin\<lparr>paid := paid fin + min amount (due fin)\<rparr>"
  let ?fin2 = "?fin1\<lparr>due := max 0 (totalFee ?fin1 - scholarship ?fin1 - paid ?fin1)\<rparr>"
  have "payFee finances sid amount =
          Inr (replaceFirst (\<lambda>f. studentId_finance f = sid) ?fin2 finances, ?fin2)"
    using assms by (simp add: payFee_def Let_def)
  moreover have "find (\<lambda>f. studentId_finance f = sid)
      (replaceFirst (\<lambda>f. studentId_finance f = sid) ?fin2 finances) = Some ?fin2"
    using assms sid by (intro find_replaceFirst) simp_all
  ultimately show ?thesis by simp
qed

theorem payFee_invariant_witness:
  "payFee [financeOf ''s1'' 1000 200 100 700, financeOf ''s2'' 900 0 0 900] ''s2'' 1200 =
     Inr ([financeOf ''s1'' 1000 200 100 700, financeOf ''s2'' 900 0 900 0],
          financeOf ''s2'' 900 0 900 0)
   \<and> due (financeOf ''s2'' 900 0 900 0) =
       max 0 (totalFee (financeOf ''s2'' 900 0 900 0) - scholarship (financeOf ''s2'' 900 0 900 0)
              - paid (financeOf ''s2'' 900 0 900 0))"
proof -
  let ?fs = "[financeOf ''s1'' 1000 200 100 700, financeOf ''s2'' 900 0 0 900]"
  have h: "find (\<lambda>f. studentId_finance f = ''s2'') ?fs = Some (financeOf ''s2'' 900 0 0 900)"
    by (simp add: financeOf_def)
  from payFee_invariant [OF h, of 1200] obtain finances' fin' where
    r: "payFee ?fs ''s2'' 1200 = Inr (finances', fin')"
    and inv: "due fin' = max 0 (totalFee fin' - scholarship fin' - paid fin')"
    by blast
  have e: "payFee ?fs ''s2'' 1200 =
     Inr ([financeOf ''s1'' 1000 200 100 700, financeOf ''s2'' 900 0 900 0],
          financeOf ''s2'' 900 0 900 0)"
    by (simp add: payFee_def financeOf_def Let_def)
  with r have "fin' = financeOf ''s2'' 900 0 900 0" by simp
  with inv e show ?thesis by simp
qed

section \<open>Properties of the average of percentages\<close>

text \<open>
  Claim C4. The average of percentages of StudentResults divides by \<open>maxScore\<close> without a
  guard: a grade with score 0 and maximum 0 makes the average NaN, alone or next to other
  grades, and a positive score over a maximum of 0 makes it infinite.
\<close>

theorem averageScore_zero_maxScore:
  "averageScore [gradeOf ''s1'' ''c1'' 0 0] = NaN
   \<and> averageScore [gradeOf ''s1'' ''c1'' 8 10, gradeOf ''s1'' ''c2'' 0 0] = NaN
   \<and> averageScore [gradeOf ''s1'' ''c1'' 5 0] = PosInf"
  by (simp add: averageScore_def gradeOf_def ofNat_def signedInf_def)


section \<open>Grouping with upsert\<close>

lemma map_of_upsert:
  "map_of (upsert k v0 f m) k' =
     (if k' = k then Some (f (case map_of m k of None \<Rightarrow> v0 | Some v \<Rightarrow> v)) else map_of m k')"
  by (induction m) auto

lemma keys_upsert: "map fst (upsert k v0 f m) = setAdd (map fst m) k"
  by (induction m) (force simp: setAdd_def)+

lemma distinct_setAdd: "distinct xs \<Longrightarrow> distinct (setAdd xs x)"
  by (simp add: setAdd_def)

lemma set_setAdd: "set (setAdd xs x) = insert x (set xs)"
  by (auto simp: setAdd_def)

lemma distinct_foldl_setAdd: "distinct xs \<Longrightarrow> distinct (foldl setAdd xs ys)"
  by (induction ys arbitrary: xs) (simp_all add: distinct_setAdd)

lemma set_foldl_setAdd: "set (foldl setAdd xs ys) = set xs \<union> set ys"
  by (induction ys arbitrary: xs) (auto simp: set_setAdd)

lemma keys_foldl_upsert:
  "map fst (foldl (\<lambda>m x. upsert (key x) (init x) (upd x) m) m0 xs) =
     foldl setAdd (map fst m0) (map key xs)"
  by (induction xs arbitrary: m0) (simp_all add: keys_upsert)

lemma map_of_foldl_upsert:
  "map_of (foldl (\<lambda>m x. upsert (key x) (init x) (upd x) m) m0 xs) k =
     (case map_of m0 k of
        Some v \<Rightarrow> Some (foldl (\<lambda>v x. upd x v) v (filter (\<lambda>x. key x = k) xs))
      | None \<Rightarrow>
          (case filter (\<lambda>x. key x = k) xs of
             [] \<Rightarrow> None
           | y # ys \<Rightarrow> Some (foldl (\<lambda>v x. upd x v) (init y) (y # ys))))"
proof (induction xs arbitrary: m0)
  case Nil
  show ?case by (simp split: option.splits)
next
  case (Cons x xs)
  show ?case
    by (simp add: Cons.IH map_of_upsert split: option.splits list.splits)
qed

section \<open>Properties of the sum-of-points aggregation\<close>















section \<open>Properties of the department buckets\<close>

lemmas dept_defs = deptKeyReports_def stripFromNonLetter_def isLetter_def isLineTerminator_def
  deptKeyDashboard_def string_defs

lemma upperChar_letter: "isLetter (upperChar c) = isLetter c"
  by (simp add: isLetter_def string_defs)

lemma upperChar_terminator: "isLineTerminator (upperChar c) = isLineTerminator c"
  by (simp add: isLineTerminator_def string_defs)

lemma stripFromNonLetter_upper:
  "stripFromNonLetter (toUpperCase s) = toUpperCase (stripFromNonLetter s)"
proof -
  have l: "isLetter \<circ> upperChar = isLetter"
    by (rule ext) (simp add: upperChar_letter)
  have t: "(\<lambda>d. \<not> isLineTerminator d) \<circ> upperChar = (\<lambda>d. \<not> isLineTerminator d)"
    by (rule ext) (simp add: upperChar_terminator)
  have d: "dropWhile isLetter (map upperChar s) = map upperChar (dropWhile isLetter s)"
    by (simp add: dropWhile_map l)
  show ?thesis
  proof (cases "dropWhile isLetter s")
    case Nil
    show ?thesis
      unfolding stripFromNonLetter_def toUpperCase_def d Nil by simp
  next
    case (Cons c rest)
    show ?thesis
      unfolding stripFromNonLetter_def toUpperCase_def d Cons
      by (simp add: takeWhile_map dropWhile_map l t)
  qed
qed

lemma deptKeyReports_upper:
  "deptKeyReports k =
     (if stripFromNonLetter (toUpperCase k) = [] then ''GEN'' else stripFromNonLetter (toUpperCase k))"
proof -
  have "toUpperCase ''GEN'' = ''GEN''"
    by (simp add: string_defs)
  moreover have "stripFromNonLetter (toUpperCase k) = [] \<longleftrightarrow> stripFromNonLetter k = []"
    by (simp add: stripFromNonLetter_upper) (simp add: toUpperCase_def)
  ultimately show ?thesis
    by (simp add: deptKeyReports_def Let_def stripFromNonLetter_upper)
qed

lemma stripFromNonLetter_one_line:
  assumes "\<forall>ch \<in> set k. \<not> isLineTerminator ch"
  shows "stripFromNonLetter k = takeWhile isLetter k"
proof (cases "dropWhile isLetter k")
  case Nil
  then have "takeWhile isLetter k = k"
    by (metis append_Nil2 takeWhile_dropWhile_id)
  then show ?thesis unfolding stripFromNonLetter_def Nil by (simp only: list.case)
next
  case (Cons c rest)
  have "set rest \<subseteq> set k"
    using set_dropWhileD [of _ isLetter k] Cons by auto
  with assms have "dropWhile (\<lambda>d. \<not> isLineTerminator d) rest = []"
    by auto
  then show ?thesis unfolding stripFromNonLetter_def Cons by simp
qed

lemma foldl_addCourse_count:
  "courses_dept (foldl (\<lambda>e c. addCourse c e) e cs) = courses_dept e + length cs"
  by (induction cs arbitrary: e) (simp_all add: addCourse_def)

lemma set_objectEntries: "set (objectEntries obj) = set obj"
  by (auto simp: objectEntries_def)

lemma departments_keys: "fst ` set (departments cs) = (\<lambda>c. deptKeyDashboard (code c)) ` set cs"
proof -
  have "set (map fst (departments cs)) = set (map (\<lambda>c. deptKeyDashboard (code c)) cs)"
    by (simp add: departments_def keys_foldl_upsert set_foldl_setAdd del: set_map)
  then show ?thesis by simp
qed

lemma deptMap_keys: "fst ` set (deptMap cs att) = (\<lambda>c. deptKeyReports (code c)) ` set cs"
proof -
  have "set (map fst (deptMap cs att)) = set (map (\<lambda>c. deptKeyReports (code c)) cs)"
    by (simp add: deptMap_def keys_foldl_upsert set_foldl_setAdd del: set_map)
  then show ?thesis by simp
qed

lemma departments_bucket:
  assumes "c \<in> set cs"
  shows "\<exists>e. (deptKeyDashboard (code c), e) \<in> set (departments cs)
     \<and> courses_dept e =
         length (filter (\<lambda>d. deptKeyDashboard (code d) = deptKeyDashboard (code c)) cs)"
proof -
  let ?same = "filter (\<lambda>d. deptKeyDashboard (code d) = deptKeyDashboard (code c)) cs"
  from assms have "c \<in> set ?same" by simp
  then obtain y ys where ys: "?same = y # ys" by (cases ?same) auto
  have "map_of (departments cs) (deptKeyDashboard (code c)) =
     Some (foldl (\<lambda>e d. addCourse d e)
       \<lparr>students_dept = [], teachers_dept = [], courses_dept = 0\<rparr> ?same)"
    unfolding departments_def by (simp add: map_of_foldl_upsert ys)
  then have "(deptKeyDashboard (code c), foldl (\<lambda>e d. addCourse d e)
       \<lparr>students_dept = [], teachers_dept = [], courses_dept = 0\<rparr> ?same) \<in> set (departments cs)"
    by (rule map_of_SomeD)
  then show ?thesis
    using foldl_addCourse_count by fastforce
qed

lemma departmentSummary_names:
  "name_summary ` set (departmentSummary cs) = (\<lambda>c. deptKeyDashboard (code c)) ` set cs"
proof -
  have "name_summary ` set (departmentSummary cs) = fst ` set (objectEntries (departments cs))"
    by (force simp: departmentSummary_def image_iff split: prod.splits)
  then show ?thesis
    by (simp add: set_objectEntries departments_keys)
qed

text \<open>
  Claim C5, as amended. The admin dashboard buckets a course under the first two characters
  of its code, as they are written; the admin reports bucket it under the upper-cased code
  with everything from the first non-letter on removed (for a one-line code: its leading
  letters), or under \<open>GEN\<close> when nothing is left. The code \<open>CS101\<close> buckets under \<open>CS\<close> in
  both views, and in the reports two codes that differ only in letter case share a bucket.
\<close>

theorem department_bucket_keys:
  "(\<forall>c \<in> set cs. \<exists>e. (take 2 (code c), e) \<in> set (departments cs)
        \<and> courses_dept e = length (filter (\<lambda>d. take 2 (code d) = take 2 (code c)) cs))
   \<and> name_summary ` set (departmentSummary cs) = (\<lambda>c. take 2 (code c)) ` set cs
   \<and> fst ` set (deptMap cs att) = (\<lambda>c. deptKeyReports (code c)) ` set cs
   \<and> ((\<forall>ch \<in> set k. \<not> isLineTerminator ch) \<longrightarrow>
        deptKeyReports k =
          (if takeWhile isLetter k = [] then ''GEN'' else toUpperCase (takeWhile isLetter k)))
   \<and> (toUpperCase k = toUpperCase k' \<longrightarrow> deptKeyReports k = deptKeyReports k')
   \<and> deptKeyDashboard ''CS101'' = ''CS'' \<and> deptKeyReports ''CS101'' = ''CS''"
proof -
  have a: "\<forall>c \<in> set cs. \<exists>e. (take 2 (code c), e) \<in> set (departments cs)
        \<and> courses_dept e = length (filter (\<lambda>d. take 2 (code d) = take 2 (code c)) cs)"
    using departments_bucket [of _ cs] by (simp add: deptKeyDashboard_def)
  have b: "name_summary ` set (departmentSummary cs) = (\<lambda>c. take 2 (code c)) ` set cs"
    using departmentSummary_names [of cs] by (simp add: deptKeyDashboard_def)
  have c: "deptKeyReports k =
          (if takeWhile isLetter k = [] then ''GEN'' else toUpperCase (takeWhile isLetter k))"
    if "\<forall>ch \<in> set k. \<not> isLineTerminator ch"
    using stripFromNonLetter_one_line [OF that] by (simp add: deptKeyReports_def string_defs)
  have d: "deptKeyReports k = deptKeyReports k'" if "toUpperCase k = toUpperCase k'"
    using that by (simp add: deptKeyReports_upper)
  have e: "deptKeyDashboard ''CS101'' = ''CS''" "deptKeyReports ''CS101'' = ''CS''"
    by (simp_all add: dept_defs)
  from a b c d e deptMap_keys [of cs att] show ?thesis by blast
qed


theorem department_bucket_keys_witness:
  "deptKeyReports ''cs-101'' = ''CS''
   \<and> toUpperCase ''cs-101'' = toUpperCase ''Cs-101''
   \<and> deptKeyReports ''cs-101'' = deptKeyReports ''Cs-101''
   \<and> (\<exists>e. (''CS'', e) \<in> set (departments
          [courseOf ''c1'' ''Programming'' ''CS101'' ''t1'' [''s1''],
           courseOf ''c2'' ''Algebra'' ''MA201'' ''t2'' [''s1'', ''s2''],
           courseOf ''c3'' ''Databases'' ''CS202'' ''t1'' [''s3'']])
        \<and> courses_dept e = 2)"
proof -
  let ?cs = "[courseOf ''c1'' ''Programming'' ''CS101'' ''t1'' [''s1''],
           courseOf ''c2'' ''Algebra'' ''MA201'' ''t2'' [''s1'', ''s2''],
           courseOf ''c3'' ''Databases'' ''CS202'' ''t1'' [''s3'']]"
  note T = department_bucket_keys [where cs = ?cs and k = "''cs-101''" and k' = "''Cs-101''"
      and att = "[]"]
  have line: "\<forall>ch \<in> set ''cs-101''. \<not> isLineTerminator ch"
    by (simp add: isLineTerminator_def)
  have up: "toUpperCase ''cs-101'' = toUpperCase ''Cs-101''"
    by (simp add: string_defs)
  have mem: "courseOf ''c1'' ''Programming'' ''CS101'' ''t1'' [''s1''] \<in> set ?cs"
    by simp
  from T line have "deptKeyReports ''cs-101'' =
      (if takeWhile isLetter ''cs-101'' = [] then ''GEN''
       else toUpperCase (takeWhile isLetter ''cs-101''))"
    by blast
  then have k: "deptKeyReports ''cs-101'' = ''CS''"
    by (simp add: isLetter_def string_defs)
  from T up have same: "deptKeyReports ''cs-101'' = deptKeyReports ''Cs-101''"
    by blast
  from T have "\<forall>c \<in> set ?cs. \<exists>e. (take 2 (code c), e) \<in> set (departments ?cs)
        \<and> courses_dept e = length (filter (\<lambda>d. take 2 (code d) = take 2 (code c)) ?cs)"
    by (rule conjunct1)
  from bspec [OF this mem] have "\<exists>e. (''CS'', e) \<in> set (departments ?cs) \<and> courses_dept e = 2"
    by (simp add: courseOf_def numeral_2_eq_2)
  with k up same show ?thesis by blast
qed

text \<open>
  The claim as stated fails in both views: the dashboard does not change the case of the
  key, so \<open>cs101\<close> and \<open>CS101\<close> make two buckets, and the reports do not stop after two
  characters, so \<open>MATH101\<close> buckets under \<open>MATH\<close>.
\<close>

theorem department_key_not_upper_two:
  "deptKeyDashboard ''cs101'' \<noteq> toUpperCase (take 2 ''cs101'')
   \<and> map fst (departments [courseOf ''c1'' ''Programming'' ''cs101'' ''t1'' [],
                           courseOf ''c2'' ''Databases'' ''CS101'' ''t1'' []]) = [''cs'', ''CS'']
   \<and> deptKeyReports ''MATH101'' \<noteq> toUpperCase (take 2 ''MATH101'')
   \<and> deptKeyReports ''MATH101'' = ''MATH''"
  by (simp add: dept_defs departments_def courseOf_def)


section \<open>Properties of the roster identifier normalisation\<close>

lemmas roster_defs = normalizeStudentIds_def catchAll_def tryParse_def trimmedNonEmpty_def
  delimiterParse_def bracketNoise_def parseOnly_def string_defs













section \<open>Objects and maps\<close>







lemma distinct_dedupe: "distinct (dedupe xs)"
  by (simp add: dedupe_def distinct_foldl_setAdd)


lemma set_sort_key_filter:
  "set (objectEntries m) = set m"
  by (auto simp: objectEntries_def)





section \<open>Properties of the student lookup\<close>












section \<open>Properties of the roster entries\<close>















section \<open>Properties of the roster reconciliation of the attendance page\<close>
















section \<open>Properties of the teacher's student list\<close>







lemma foldl_assign_keys:
  "fst ` set (foldl (\<lambda>m e. assign (fst e) (g (snd e)) m) [] es) = fst ` set es"
proof -
  have "set (map fst (foldl (\<lambda>m e. assign (fst e) (g (snd e)) m) [] es)) = set (map fst es)"
    by (simp add: assign_def keys_foldl_upsert set_foldl_setAdd del: set_map)
  then show ?thesis by simp
qed


lemma rosterStudentMapOf_keys: "fst ` set (rosterStudentMapOf L m) = fst ` set m"
  by (simp add: rosterStudentMapOf_def foldl_assign_keys set_sort_key_filter)













section \<open>Properties of the guarded percentages\<close>

lemma percentOf_finite: "\<exists>p. percentOf grade = Fin p"
  by (simp add: percentOf_def)

lemma averageOf_finite: "\<exists>a. averageOf grades = Fin a"
proof -
  have "\<exists>t. foldl (\<lambda>sum grade. js_add sum (percentOf grade)) (Fin t0) grades = Fin t" for t0
  proof (induction grades arbitrary: t0)
    case Nil
    show ?case by simp
  next
    case (Cons g gs)
    obtain p where "percentOf g = Fin p" using percentOf_finite by blast
    with Cons [of "t0 + p"] show ?case by simp
  qed
  then obtain t where "foldl (\<lambda>sum grade. js_add sum (percentOf grade)) (Fin 0) grades = Fin t"
    by blast
  then show ?thesis
    by (simp add: averageOf_def Let_def ofNat_def)
qed

lemma percentOf_zero_over_zero: "percentOf (gradeOf s c 0 0) = Fin 0"
  by (simp add: percentOf_def gradeOf_def)

end
